theory Spec2Isabelle
  imports Main "HOL-Library.Sublist"
begin

section \<open>Python values used by the pipeline\<close>

text \<open>
  The three modules \<^verbatim>\<open>logic.py\<close> (NX-OS, parallel), \<^verbatim>\<open>logic_xe.py\<close> (IOS-XE, parallel)
  and \<^verbatim>\<open>logic-single.py\<close> (NX-OS, sequential) are embedded function by function.
  TextFSM, pandas, the spreadsheet writer and the regular expression engine are libraries
  outside the repository: the tables TextFSM returns are inputs of the model, a DataFrame
  is the list of its rows, and each library call the code makes is written out with the
  behaviour the library documents. Text is a list of characters (\<^typ>\<open>string\<close>); the
  decoding of an uploaded file (UTF-8 with a fallback to Windows-1252) happens before the
  model starts.
\<close>

datatype error = KeyError | IndexError | FileNotFoundError | ReadError

text \<open>
  A raise is the left injection of a sum; \<open>bind_e\<close> sequences two statements, the second
  one skipped when the first raises.
\<close>

definition bind_e :: "error + 'a \<Rightarrow> ('a \<Rightarrow> error + 'b) \<Rightarrow> error + 'b" where
  "bind_e m f = (case m of Inl e \<Rightarrow> Inl e | Inr a \<Rightarrow> f a)"

text \<open>A \<^verbatim>\<open>for\<close> loop that threads a value through a body that may raise.\<close>

fun foldl_e :: "('a \<Rightarrow> 'b \<Rightarrow> error + 'a) \<Rightarrow> 'a \<Rightarrow> 'b list \<Rightarrow> error + 'a" where
  "foldl_e f a [] = Inr a"
| "foldl_e f a (x # xs) = bind_e (f a x) (\<lambda>a'. foldl_e f a' xs)"

text \<open>
  A TextFSM cell is a string, or a list of strings for a value declared \<^verbatim>\<open>List\<close> in the
  template.
\<close>

datatype val = Str string | Lst "string list"

subsection \<open>Strings\<close>

definition newline :: char where
  "newline = CHR 0x0A"

text \<open>\<^verbatim>\<open>x in s\<close> on two strings: \<open>x\<close> occurs in \<open>s\<close> as a contiguous substring.\<close>

fun py_in :: "string \<Rightarrow> string \<Rightarrow> bool" where
  "py_in x [] = (x = [])"
| "py_in x (c # cs) = (prefix x (c # cs) \<or> py_in x cs)"

text \<open>\<^verbatim>\<open>sep.join(xs)\<close>.\<close>

fun py_join :: "string \<Rightarrow> string list \<Rightarrow> string" where
  "py_join sep [] = []"
| "py_join sep [x] = x"
| "py_join sep (x # y # ys) = x @ sep @ py_join sep (y # ys)"

text \<open>
  \<^verbatim>\<open>s.split(sep)\<close> for a non-empty separator (every call in the code passes a constant
  one): the text is scanned from the left, \<open>acc\<close> holds the piece being read, and after a
  match the counter \<open>k\<close> skips the rest of the separator.
\<close>

fun split_walk :: "string \<Rightarrow> nat \<Rightarrow> string \<Rightarrow> string \<Rightarrow> string list" where
  "split_walk sep k acc [] = [acc]"
| "split_walk sep k acc (c # cs) =
     (if 0 < k then split_walk sep (k - 1) acc cs
      else if sep \<noteq> [] \<and> prefix sep (c # cs)
           then acc # split_walk sep (length sep - 1) [] cs
      else split_walk sep 0 (acc @ [c]) cs)"

definition py_split :: "string \<Rightarrow> string \<Rightarrow> string list" where
  "py_split sep s = split_walk sep 0 [] s"

text \<open>\<^verbatim>\<open>s.replace(old, new)\<close> for a non-empty \<open>old\<close>.\<close>

definition py_replace :: "string \<Rightarrow> string \<Rightarrow> string \<Rightarrow> string" where
  "py_replace old new s = py_join new (py_split old s)"

text \<open>\<^verbatim>\<open>s.strip()\<close>: the ASCII white space characters are removed at both ends.\<close>

definition py_isspace :: "char \<Rightarrow> bool" where
  "py_isspace c =
     (c \<in> set [CHR 0x20, CHR 0x09, CHR 0x0A, CHR 0x0B, CHR 0x0C, CHR 0x0D,
                CHR 0x1C, CHR 0x1D, CHR 0x1E, CHR 0x1F])"

definition py_strip :: "string \<Rightarrow> string" where
  "py_strip s = rev (dropWhile py_isspace (rev (dropWhile py_isspace s)))"

text \<open>\<^verbatim>\<open>str(x)\<close> and the truth value of a cell that may be \<^verbatim>\<open>None\<close>.\<close>

definition py_str :: "string option \<Rightarrow> string" where
  "py_str x = (case x of None \<Rightarrow> ''None'' | Some s \<Rightarrow> s)"

definition truthy :: "string option \<Rightarrow> bool" where
  "truthy x = (case x of None \<Rightarrow> False | Some s \<Rightarrow> s \<noteq> [])"

text \<open>\<^verbatim>\<open>arr[0]\<close> raises on an empty array.\<close>

definition index0 :: "'a list \<Rightarrow> error + 'a" where
  "index0 arr = (case arr of [] \<Rightarrow> Inl IndexError | x # xs \<Rightarrow> Inr x)"

text \<open>\<^verbatim>\<open>f(arr[0]) if len(arr) > 0 else d\<close>.\<close>

definition item_or :: "'a list \<Rightarrow> 'b \<Rightarrow> ('a \<Rightarrow> 'b) \<Rightarrow> error + 'b" where
  "item_or arr d f =
     (if 0 < length arr then bind_e (index0 arr) (\<lambda>x. Inr (f x)) else Inr d)"

text \<open>\<^verbatim>\<open>Series.unique()\<close>: the distinct values in order of first appearance.\<close>

fun unique_from :: "'a list \<Rightarrow> 'a list \<Rightarrow> 'a list" where
  "unique_from seen [] = []"
| "unique_from seen (x # xs) =
     (if x \<in> set seen then unique_from seen xs else x # unique_from (seen @ [x]) xs)"

definition unique_values :: "'a list \<Rightarrow> 'a list" where
  "unique_values xs = unique_from [] xs"

section \<open>The nine parsed tables\<close>

text \<open>
  One record per table, with the columns the code reads. \<^verbatim>\<open>PORTS\<close> is a scalar in the
  NX-OS records (the code matches it against a regular expression) and is indexed as a list
  in the IOS-XE ones (after the renaming of \<^verbatim>\<open>DESTINATION_PORT\<close>), so its type is a
  parameter; \<^verbatim>\<open>MEMBER_INTERFACE\<close> and \<^verbatim>\<open>ALLOWED_VLANS\<close> are joined by the code and may be
  lists. Every other cell is a string, possibly empty.
\<close>

record 'p mac_row =
  mac_VLAN_ID :: string
  mac_MAC_ADDRESS :: string
  mac_PORTS :: 'p

record arp_row =
  arp_MAC_ADDRESS :: string
  arp_IP_ADDRESS :: string

record desc_row =
  desc_PORT :: string
  desc_DESCRIPTION :: string

record inventory_row =
  inv_NAME :: string
  inv_PID :: string
  inv_SN :: string

record po_row =
  po_BUNDLE_NAME :: string
  po_MEMBER_INTERFACE :: val

record status_row =
  st_PORT :: string
  st_TYPE :: string
  st_VLAN_ID :: string

record cdp_row =
  cdp_LOCAL_INTERFACE :: string
  cdp_NEIGHBOR_NAME :: string
  cdp_PLATFORM :: string
  cdp_NEIGHBOR_INTERFACE :: string

record lldp_row =
  lldp_LOCAL_INTERFACE :: string
  lldp_NEIGHBOR_NAME :: string
  lldp_NEIGHBOR_INTERFACE :: string

record trunk_row =
  trunk_PORT :: string
  trunk_ALLOWED_VLANS :: val

record 'p tables =
  mac_address :: "'p mac_row list"
  ip_arp :: "arp_row list"
  interface_description :: "desc_row list"
  inventory :: "inventory_row list"
  port_channel_summary :: "po_row list"
  interface_status :: "status_row list"
  cdp_neighbors :: "cdp_row list"
  lldp_neighbors :: "lldp_row list"
  interface_trunk :: "trunk_row list"

text \<open>The row the Port Record Builder appends to \<^verbatim>\<open>result\<close>, one field per dictionary key.\<close>

record port_record =
  Hostname :: string
  Serial_Number :: "string option"
  Port :: string
  Member_PO :: string
  Tipe_Kabel :: string
  SFP :: "string option"
  IP_Address :: "string option"
  Mac_Address :: string
  VLAN :: string
  Allowed_VLAN :: string
  Trunk_Access :: string
  Description :: "string option"
  CDP_Neighbor_Hostname :: "string option"
  CDP_Neighbor_Platform :: "string option"
  CDP_Neighbor_Port :: "string option"
  LLDP_Neighbor_Hostname :: "string option"
  LLDP_Neighbor_Port :: "string option"

text \<open>
  \<^verbatim>\<open>pd.DataFrame([])\<close> has no columns: selecting a column of an empty table raises
  \<^verbatim>\<open>KeyError\<close>. \<open>loc df cond column\<close> is \<^verbatim>\<open>df.loc[mask, column].values\<close>, the cells of
  \<open>column\<close> in the rows that satisfy \<open>cond\<close>, in row order.
\<close>

definition loc :: "'r list \<Rightarrow> ('r \<Rightarrow> bool) \<Rightarrow> ('r \<Rightarrow> 'v) \<Rightarrow> error + 'v list" where
  "loc df cond column = (if df = [] then Inl KeyError else Inr (map column (filter cond df)))"

section \<open>Port Record Builder\<close>

subsection \<open>Lookups shared by both dialects\<close>

text \<open>
  Each definition is one group of statements of the loop body of
  \<^verbatim>\<open>process_single_hostname\<close>, with the guard \<^verbatim>\<open>if not table.empty\<close> where the source has
  it.
\<close>

text \<open>\<^verbatim>\<open>', '.join(v)\<close> on a cell: a string is joined character by character.\<close>

definition join_val :: "string \<Rightarrow> val \<Rightarrow> string" where
  "join_val sep v =
     (case v of Lst l \<Rightarrow> py_join sep l | Str s \<Rightarrow> py_join sep (map (\<lambda>c. [c]) s))"

definition val_truthy :: "val \<Rightarrow> bool" where
  "val_truthy v = (case v of Lst l \<Rightarrow> l \<noteq> [] | Str s \<Rightarrow> s \<noteq> [])"

text \<open>
  \<^verbatim>\<open>desc_array = interface_description.loc[interface_description['PORT'] == port, 'DESCRIPTION'].values if not interface_description.empty else []\<close>
  \<^verbatim>\<open>desc = desc_array[0] if len(desc_array) > 0 else None\<close>
\<close>

definition desc_lookup :: "desc_row list \<Rightarrow> string \<Rightarrow> error + string option" where
  "desc_lookup descs port =
     bind_e (if descs \<noteq> [] then loc descs (\<lambda>r. desc_PORT r = port) desc_DESCRIPTION
             else Inr [])
       (\<lambda>desc_array. item_or desc_array None Some)"

text \<open>
  \<^verbatim>\<open>type_cable = "UTP" if "T" in str(sfp) else "Fiber" if sfp else "???"\<close> (port-channel), and
  \<^verbatim>\<open>type_cable = "UTP" if "T" in str(sfp) else "Fiber" if sfp and "Vlan" not in port else "???"\<close>
  (any other port). The cable type the specification calls Unknown is the string
  \<^verbatim>\<open>"???"\<close>.
\<close>

definition type_cable_po :: "string option \<Rightarrow> string" where
  "type_cable_po sfp =
     (if py_in ''T'' (py_str sfp) then ''UTP''
      else if truthy sfp then ''Fiber'' else ''???'')"

definition type_cable_port :: "string option \<Rightarrow> string \<Rightarrow> string" where
  "type_cable_port sfp port =
     (if py_in ''T'' (py_str sfp) then ''UTP''
      else if truthy sfp \<and> \<not> py_in ''Vlan'' port then ''Fiber'' else ''???'')"

text \<open>
  The same derivation in \<^verbatim>\<open>logic-single.py\<close>, where the test on \<^verbatim>\<open>"Vlan"\<close> comes first:
  \<^verbatim>\<open>if "Vlan" in port: type_cable = "???"\<close>
  \<^verbatim>\<open>else: if type(sfp) == str: type_cable = "UTP" if "T" in sfp else "Fiber" else: type_cable = "???"\<close>
\<close>

definition type_cable_po_single :: "string option \<Rightarrow> string" where
  "type_cable_po_single sfp =
     (case sfp of Some s \<Rightarrow> (if py_in ''T'' s then ''UTP'' else ''Fiber'')
      | None \<Rightarrow> ''???'')"

definition type_cable_port_single :: "string option \<Rightarrow> string \<Rightarrow> string" where
  "type_cable_port_single sfp port =
     (if py_in ''Vlan'' port then ''???''
      else (case sfp of Some s \<Rightarrow> (if py_in ''T'' s then ''UTP'' else ''Fiber'')
            | None \<Rightarrow> ''???''))"

text \<open>
  The SFP of a port that is not a port-channel:
  \<^verbatim>\<open>sfp_array = interface_status.loc[interface_status['PORT'] == port, 'TYPE'].values if not interface_status.empty else []\<close>
\<close>

definition sfp_lookup :: "status_row list \<Rightarrow> string \<Rightarrow> error + string option" where
  "sfp_lookup st port =
     bind_e (if st \<noteq> [] then loc st (\<lambda>r. st_PORT r = port) st_TYPE else Inr [])
       (\<lambda>sfp_array. item_or sfp_array None Some)"

text \<open>
  The SFP of a port-channel is the one of its first member:
  \<^verbatim>\<open>sfp_array = interface_status.loc[interface_status['PORT'] == member_po.split(',')[0], 'TYPE'].values if not interface_status.empty and member_po else []\<close>
\<close>

definition sfp_lookup_po :: "status_row list \<Rightarrow> string \<Rightarrow> error + string option" where
  "sfp_lookup_po st member_po =
     bind_e (if st \<noteq> [] \<and> member_po \<noteq> []
             then bind_e (index0 (py_split '','' member_po))
                    (\<lambda>first. loc st (\<lambda>r. st_PORT r = first) st_TYPE)
             else Inr [])
       (\<lambda>sfp_array. item_or sfp_array None Some)"

text \<open>
  \<^verbatim>\<open>trunk_access = trunk_access_array[0] if len(trunk_access_array) > 0 else ""\<close>
  \<^verbatim>\<open>if len(trunk_access) != 0 and "trunk" not in trunk_access and "routed" not in trunk_access: trunk_access = "Access"\<close>
\<close>

definition trunk_access_lookup :: "status_row list \<Rightarrow> string \<Rightarrow> error + string" where
  "trunk_access_lookup st port =
     bind_e (if st \<noteq> [] then loc st (\<lambda>r. st_PORT r = port) st_VLAN_ID else Inr [])
       (\<lambda>trunk_access_array.
          bind_e (item_or trunk_access_array '''' id)
            (\<lambda>trunk_access.
               Inr (if length trunk_access \<noteq> 0 \<and> \<not> py_in ''trunk'' trunk_access
                       \<and> \<not> py_in ''routed'' trunk_access
                    then ''Access'' else trunk_access)))"

text \<open>LLDP neighbours are looked up for ports that are not port-channels only.\<close>

definition lldp_lookup ::
  "lldp_row list \<Rightarrow> string \<Rightarrow> error + (string option \<times> string option)" where
  "lldp_lookup lldp port =
     (if lldp \<noteq> [] \<and> \<not> prefix ''Po'' port
      then bind_e (loc lldp (\<lambda>r. lldp_LOCAL_INTERFACE r = port)
                     (\<lambda>r. (lldp_NEIGHBOR_NAME r, lldp_NEIGHBOR_INTERFACE r)))
             (\<lambda>lldp_array.
                if 0 < length lldp_array
                then bind_e (index0 lldp_array) (\<lambda>(n, i). Inr (Some n, Some i))
                else Inr (None, None))
      else Inr (None, None))"

text \<open>
  \<^verbatim>\<open>if len(allowed_vlan_trunk_values) > 0 and allowed_vlan_trunk_values[0]:\<close>
  \<^verbatim>\<open>allowed_vlan_trunk = values[0] if isinstance(values[0], str) else ','.join(values[0])\<close>
\<close>

definition allowed_vlan_lookup :: "trunk_row list \<Rightarrow> string \<Rightarrow> error + string" where
  "allowed_vlan_lookup trunk port =
     (if trunk \<noteq> []
      then bind_e (loc trunk (\<lambda>r. trunk_PORT r = port) trunk_ALLOWED_VLANS)
             (\<lambda>allowed_vlan_trunk_values.
                if 0 < length allowed_vlan_trunk_values
                then bind_e (index0 allowed_vlan_trunk_values)
                       (\<lambda>v0. Inr (if val_truthy v0
                                   then (case v0 of Str s \<Rightarrow> s | Lst l \<Rightarrow> py_join '','' l)
                                   else ''''))
                else Inr '''')
      else Inr '''')"

subsection \<open>NX-OS (\<^verbatim>\<open>logic.py\<close>)\<close>

text \<open>
  \<^verbatim>\<open>sn_array = inventory[inventory['NAME'] == 'Chassis']['SN'].values if not inventory.empty else []\<close>
\<close>

definition sn_lookup_nxos :: "inventory_row list \<Rightarrow> error + string option" where
  "sn_lookup_nxos ivt =
     bind_e (if ivt \<noteq> [] then loc ivt (\<lambda>r. inv_NAME r = ''Chassis'') inv_SN else Inr [])
       (\<lambda>sn_array. item_or sn_array None Some)"

definition ip_lookup_nxos :: "arp_row list \<Rightarrow> string \<Rightarrow> error + string option" where
  "ip_lookup_nxos arp mac =
     (if arp = [] then Inr None
      else bind_e (loc arp (\<lambda>r. arp_MAC_ADDRESS r = mac) arp_IP_ADDRESS)
             (\<lambda>ip_array. item_or ip_array None Some))"

text \<open>
  \<^verbatim>\<open>member_po_temp = member_po_array[0] if len(member_po_array) > 0 else None\<close>
  \<^verbatim>\<open>member_po = ', '.join(member_po_temp) if member_po_temp else ""\<close>
\<close>

definition member_po_nxos :: "po_row list \<Rightarrow> string \<Rightarrow> error + string" where
  "member_po_nxos pcs port =
     bind_e (if pcs \<noteq> [] then loc pcs (\<lambda>r. po_BUNDLE_NAME r = port) po_MEMBER_INTERFACE
             else Inr [])
       (\<lambda>member_po_array.
          bind_e (item_or member_po_array None Some)
            (\<lambda>member_po_temp.
               Inr (case member_po_temp of
                      None \<Rightarrow> ''''
                    | Some v \<Rightarrow> (if val_truthy v then join_val '', '' v else ''''))))"

text \<open>The branch on \<^verbatim>\<open>re.match(r'^Po', port)\<close>: member list, SFP and cable type.\<close>

definition cable_nxos ::
  "po_row list \<Rightarrow> status_row list \<Rightarrow> string \<Rightarrow> error + (string \<times> string option \<times> string)" where
  "cable_nxos pcs st port =
     (if prefix ''Po'' port
      then bind_e (member_po_nxos pcs port)
             (\<lambda>member_po.
                bind_e (sfp_lookup_po st member_po)
                  (\<lambda>sfp. Inr (member_po, sfp, type_cable_po sfp)))
      else bind_e (sfp_lookup st port)
             (\<lambda>sfp. Inr ('''', sfp, type_cable_port sfp port)))"

text \<open>
  One turn of \<^verbatim>\<open>for intf in member_po.split(', ')\<close>:
  \<^verbatim>\<open>cdp_remote_hostname = cdp_array[0][0] if cdp_array[0][0] not in cdp_remote_hostname else cdp_remote_hostname\<close>
  \<^verbatim>\<open>cdp_remote_port += (f", {cdp_array[0][2]}" if cdp_remote_port else cdp_array[0][2])\<close>
\<close>

definition cdp_step_nxos ::
  "cdp_row list \<Rightarrow> string \<times> string \<times> string \<Rightarrow> string \<Rightarrow> error + (string \<times> string \<times> string)" where
  "cdp_step_nxos cdp acc intf =
     (case acc of (cdp_remote_hostname, cdp_remote_platform, cdp_remote_port) \<Rightarrow>
        if intf = [] then Inr acc
        else bind_e (loc cdp (\<lambda>r. cdp_LOCAL_INTERFACE r = intf)
                       (\<lambda>r. (cdp_NEIGHBOR_NAME r, cdp_PLATFORM r, cdp_NEIGHBOR_INTERFACE r)))
               (\<lambda>cdp_array.
                  if 0 < length cdp_array
                  then bind_e (index0 cdp_array)
                         (\<lambda>(n, q, i).
                            Inr (if \<not> py_in n cdp_remote_hostname then n else cdp_remote_hostname,
                                 if \<not> py_in q cdp_remote_platform then q else cdp_remote_platform,
                                 cdp_remote_port @
                                   (if cdp_remote_port \<noteq> [] then '', '' @ i else i)))
                  else Inr acc))"

definition cdp_lookup_nxos ::
  "cdp_row list \<Rightarrow> string \<Rightarrow> string
     \<Rightarrow> error + (string option \<times> string option \<times> string option)" where
  "cdp_lookup_nxos cdp port member_po =
     (if cdp \<noteq> []
      then (if prefix ''Po'' port
            then bind_e (foldl_e (cdp_step_nxos cdp) ('''', '''', '''') (py_split '', '' member_po))
                   (\<lambda>(h, q, p). Inr (Some h, Some q, Some p))
            else bind_e (loc cdp (\<lambda>r. cdp_LOCAL_INTERFACE r = port)
                           (\<lambda>r. (cdp_NEIGHBOR_NAME r, cdp_PLATFORM r, cdp_NEIGHBOR_INTERFACE r)))
                   (\<lambda>cdp_array.
                      if 0 < length cdp_array
                      then bind_e (index0 cdp_array) (\<lambda>(n, q, i). Inr (Some n, Some q, Some i))
                      else Inr (None, None, None)))
      else Inr (None, None, None))"

text \<open>
  The body of \<^verbatim>\<open>for index, row in mac_address.iterrows()\<close>; \<open>Inr None\<close> is
  \<^verbatim>\<open>continue\<close>, \<open>Inr (Some r)\<close> is \<^verbatim>\<open>result.append(r)\<close>.
\<close>

definition process_row_nxos ::
  "string \<Rightarrow> string tables \<Rightarrow> string mac_row \<Rightarrow> error + port_record option" where
  "process_row_nxos hostname T row =
     (if py_in ''vPC'' (mac_PORTS row) then Inr None
      else
        let port = mac_PORTS row; mac = mac_MAC_ADDRESS row; vlan = mac_VLAN_ID row in
        bind_e (sn_lookup_nxos (inventory T)) (\<lambda>sn.
        bind_e (ip_lookup_nxos (ip_arp T) mac) (\<lambda>ip.
        bind_e (desc_lookup (interface_description T) port) (\<lambda>desc.
        bind_e (cable_nxos (port_channel_summary T) (interface_status T) port)
          (\<lambda>(member_po, sfp, type_cable).
        bind_e (trunk_access_lookup (interface_status T) port) (\<lambda>trunk_access.
        bind_e (cdp_lookup_nxos (cdp_neighbors T) port member_po)
          (\<lambda>(cdp_remote_hostname, cdp_remote_platform, cdp_remote_port).
        bind_e (lldp_lookup (lldp_neighbors T) port)
          (\<lambda>(lldp_remote_hostname, lldp_remote_port).
        bind_e (allowed_vlan_lookup (interface_trunk T) port) (\<lambda>allowed_vlan_trunk.
        Inr (Some \<lparr>Hostname = hostname, Serial_Number = sn, Port = port,
                   Member_PO = member_po, Tipe_Kabel = type_cable, SFP = sfp,
                   IP_Address = ip, Mac_Address = mac, VLAN = vlan,
                   Allowed_VLAN = allowed_vlan_trunk, Trunk_Access = trunk_access,
                   Description = desc, CDP_Neighbor_Hostname = cdp_remote_hostname,
                   CDP_Neighbor_Platform = cdp_remote_platform,
                   CDP_Neighbor_Port = cdp_remote_port,
                   LLDP_Neighbor_Hostname = lldp_remote_hostname,
                   LLDP_Neighbor_Port = lldp_remote_port\<rparr>))))))))))"

text \<open>The loop: an exception in a row leaves the loop and the function.\<close>

definition build_nxos :: "string \<Rightarrow> string tables \<Rightarrow> error + port_record list" where
  "build_nxos hostname T =
     foldl_e (\<lambda>result row.
                bind_e (process_row_nxos hostname T row)
                  (\<lambda>r. Inr (case r of None \<Rightarrow> result | Some rec \<Rightarrow> result @ [rec])))
       [] (mac_address T)"

subsection \<open>IOS-XE (\<^verbatim>\<open>logic_xe.py\<close>)\<close>

text \<open>
  \<^verbatim>\<open>if "CPU" in row.get('PORTS', ''): continue\<close> is a membership test when the cell is a
  list and a substring test when it is a string; then
  \<^verbatim>\<open>port_list = row.get('PORTS', [])\<close>, \<^verbatim>\<open>port = port_list[0] if port_list else ''\<close>.
\<close>

definition in_val :: "string \<Rightarrow> val \<Rightarrow> bool" where
  "in_val x v = (case v of Lst l \<Rightarrow> x \<in> set l | Str s \<Rightarrow> py_in x s)"

definition first_port :: "val \<Rightarrow> error + string" where
  "first_port port_list =
     (if val_truthy port_list
      then (case port_list of Lst l \<Rightarrow> index0 l
            | Str s \<Rightarrow> bind_e (index0 s) (\<lambda>c. Inr [c]))
      else Inr '''')"

text \<open>
  \<^verbatim>\<open>sn_array = inventory[inventory['PID'].notna()]['SN'].values if not inventory.empty else []\<close>;
  a TextFSM cell is a string, possibly empty, and never NaN.
\<close>

definition notna :: "string \<Rightarrow> bool" where
  "notna s = True"

definition sn_lookup_xe :: "inventory_row list \<Rightarrow> error + string option" where
  "sn_lookup_xe ivt =
     bind_e (if ivt \<noteq> [] then loc ivt (\<lambda>r. notna (inv_PID r)) inv_SN else Inr [])
       (\<lambda>sn_array. item_or sn_array None Some)"

definition ip_lookup_xe :: "arp_row list \<Rightarrow> string \<Rightarrow> error + string option" where
  "ip_lookup_xe arp mac =
     bind_e (if arp \<noteq> [] then loc arp (\<lambda>r. arp_MAC_ADDRESS r = mac) arp_IP_ADDRESS
             else Inr [])
       (\<lambda>ip_array. item_or ip_array None Some)"

text \<open>
  \<^verbatim>\<open>member_po = ', '.join(member_po_array[0]) if len(member_po_array) > 0 else ""\<close>
\<close>

definition member_po_xe :: "po_row list \<Rightarrow> string \<Rightarrow> error + string" where
  "member_po_xe pcs port =
     bind_e (if pcs \<noteq> [] then loc pcs (\<lambda>r. po_BUNDLE_NAME r = port) po_MEMBER_INTERFACE
             else Inr [])
       (\<lambda>member_po_array. item_or member_po_array '''' (join_val '', ''))"

definition cable_xe ::
  "po_row list \<Rightarrow> status_row list \<Rightarrow> string \<Rightarrow> error + (string \<times> string option \<times> string)" where
  "cable_xe pcs st port =
     (if prefix ''Po'' port
      then bind_e (member_po_xe pcs port)
             (\<lambda>member_po.
                bind_e (sfp_lookup_po st member_po)
                  (\<lambda>sfp. Inr (member_po, sfp, type_cable_po sfp)))
      else bind_e (sfp_lookup st port)
             (\<lambda>sfp. Inr ('''', sfp, type_cable_port sfp port)))"

text \<open>
  \<^verbatim>\<open>interfaces_to_check = member_po.split(', ') if port.startswith('Po') and member_po else [port]\<close>
  \<^verbatim>\<open>cdp_data = cdp_neighbors[cdp_neighbors['LOCAL_INTERFACE'].isin(interfaces_to_check)]\<close>
  \<^verbatim>\<open>cdp_remote_hostname = cdp_data.iloc[0]['NEIGHBOR_NAME']\<close>
  \<^verbatim>\<open>cdp_remote_port = ', '.join(cdp_data['NEIGHBOR_INTERFACE'].unique())\<close>
\<close>

definition cdp_lookup_xe ::
  "cdp_row list \<Rightarrow> string \<Rightarrow> string
     \<Rightarrow> error + (string option \<times> string option \<times> string option)" where
  "cdp_lookup_xe cdp port member_po =
     (if cdp \<noteq> []
      then (let interfaces_to_check =
                  (if prefix ''Po'' port \<and> member_po \<noteq> [] then py_split '', '' member_po
                   else [port])
            in bind_e (loc cdp (\<lambda>r. cdp_LOCAL_INTERFACE r \<in> set interfaces_to_check) id)
                 (\<lambda>cdp_data.
                    if cdp_data \<noteq> []
                    then bind_e (index0 cdp_data)
                           (\<lambda>r0. Inr (Some (cdp_NEIGHBOR_NAME r0), Some (cdp_PLATFORM r0),
                                       Some (py_join '', ''
                                          (unique_values (map cdp_NEIGHBOR_INTERFACE cdp_data)))))
                    else Inr (None, None, None)))
      else Inr (None, None, None))"

definition process_row_xe ::
  "string \<Rightarrow> val tables \<Rightarrow> val mac_row \<Rightarrow> error + port_record option" where
  "process_row_xe hostname T row =
     (if in_val ''CPU'' (mac_PORTS row) then Inr None
      else
        bind_e (first_port (mac_PORTS row)) (\<lambda>port.
        if port = [] then Inr None
        else
        let mac = mac_MAC_ADDRESS row; vlan = mac_VLAN_ID row in
        bind_e (sn_lookup_xe (inventory T)) (\<lambda>sn.
        bind_e (ip_lookup_xe (ip_arp T) mac) (\<lambda>ip.
        bind_e (desc_lookup (interface_description T) port) (\<lambda>desc.
        bind_e (cable_xe (port_channel_summary T) (interface_status T) port)
          (\<lambda>(member_po, sfp, type_cable).
        bind_e (trunk_access_lookup (interface_status T) port) (\<lambda>trunk_access.
        bind_e (cdp_lookup_xe (cdp_neighbors T) port member_po)
          (\<lambda>(cdp_remote_hostname, cdp_remote_platform, cdp_remote_port).
        bind_e (lldp_lookup (lldp_neighbors T) port)
          (\<lambda>(lldp_remote_hostname, lldp_remote_port).
        bind_e (allowed_vlan_lookup (interface_trunk T) port) (\<lambda>allowed_vlan_trunk.
        Inr (Some \<lparr>Hostname = hostname, Serial_Number = sn, Port = port,
                   Member_PO = member_po, Tipe_Kabel = type_cable, SFP = sfp,
                   IP_Address = ip, Mac_Address = mac, VLAN = vlan,
                   Allowed_VLAN = allowed_vlan_trunk, Trunk_Access = trunk_access,
                   Description = desc, CDP_Neighbor_Hostname = cdp_remote_hostname,
                   CDP_Neighbor_Platform = cdp_remote_platform,
                   CDP_Neighbor_Port = cdp_remote_port,
                   LLDP_Neighbor_Hostname = lldp_remote_hostname,
                   LLDP_Neighbor_Port = lldp_remote_port\<rparr>)))))))))))"

text \<open>
  The loop body is inside \<^verbatim>\<open>try: ... except Exception as e: ... continue\<close>: a row that
  raises is skipped.
\<close>

definition build_xe :: "string \<Rightarrow> val tables \<Rightarrow> port_record list" where
  "build_xe hostname T =
     foldl (\<lambda>result row.
              case process_row_xe hostname T row of
                Inl e \<Rightarrow> result
              | Inr None \<Rightarrow> result
              | Inr (Some rec) \<Rightarrow> result @ [rec])
       [] (mac_address T)"

section \<open>Aggregator: the IP backfill\<close>

text \<open>
  \<^verbatim>\<open>mac_to_ip = final_df.dropna(subset=['IP Address']).set_index('Mac Address')['IP Address'].to_dict()\<close>
  \<^verbatim>\<open>final_df['IP Address'] = final_df['IP Address'].fillna(final_df['Mac Address'].map(mac_to_ip))\<close>

  A missing cell (NaN) is \<open>None\<close>. \<^verbatim>\<open>dropna\<close> keeps the rows whose cell is present,
  \<^verbatim>\<open>set_index(...)[...]\<close> pairs each kept row's MAC address with its IP address, and
  \<^verbatim>\<open>to_dict\<close> inserts the pairs into a dictionary in row order, so a later pair
  overwrites an earlier one with the same key.
\<close>

definition dropna :: "port_record list \<Rightarrow> port_record list" where
  "dropna df = filter (\<lambda>r. IP_Address r \<noteq> None) df"

definition set_index :: "port_record list \<Rightarrow> (string \<times> string) list" where
  "set_index df =
     List.map_filter (\<lambda>r. map_option (\<lambda>ip. (Mac_Address r, ip)) (IP_Address r)) df"

definition to_dict :: "(string \<times> string) list \<Rightarrow> (string \<rightharpoonup> string)" where
  "to_dict kvs = foldl (\<lambda>d kv. d(fst kv \<mapsto> snd kv)) Map.empty kvs"

definition mac_to_ip :: "port_record list \<Rightarrow> (string \<rightharpoonup> string)" where
  "mac_to_ip final_df = to_dict (set_index (dropna final_df))"

definition fillna :: "(string \<rightharpoonup> string) \<Rightarrow> port_record \<Rightarrow> port_record" where
  "fillna d r =
     (case IP_Address r of
        Some ip \<Rightarrow> r
      | None \<Rightarrow> r\<lparr>IP_Address := d (Mac_Address r)\<rparr>)"

definition ip_backfill :: "port_record list \<Rightarrow> port_record list" where
  "ip_backfill final_df = (let d = mac_to_ip final_df in map (fillna d) final_df)"

section \<open>Device Report Writer, dispatcher and aggregation\<close>

text \<open>
  The output folder maps a file name to an artifact. Of a report only the sheet
  \<^verbatim>\<open>Final Data\<close> is read again, so a workbook is that sheet; \<open>Unreadable\<close> is a file
  \<^verbatim>\<open>pd.read_excel(filepath, sheet_name='Final Data')\<close> raises on. The spreadsheet library
  is an external capability: a sheet is read back as the rows that were written.
\<close>

datatype artifact = Workbook "port_record list" | Unreadable

type_synonym store = "string \<rightharpoonup> artifact"

definition read_excel :: "store \<Rightarrow> string \<Rightarrow> error + port_record list" where
  "read_excel out filename =
     (case out filename of
        None \<Rightarrow> Inl FileNotFoundError
      | Some Unreadable \<Rightarrow> Inl ReadError
      | Some (Workbook final_data) \<Rightarrow> Inr final_data)"

text \<open>
  \<^verbatim>\<open>process_single_hostname\<close> of \<^verbatim>\<open>logic.py\<close>, after the tables are loaded: the value
  returned to the pool and the output folder it leaves.
  \<^verbatim>\<open>if mac_address.empty: return f"{hostname}.xlsx" # Return filename to be used in aggregation\<close>
  \<^verbatim>\<open>if not result: return None\<close>
\<close>

definition process_single_hostname_nxos ::
  "string \<Rightarrow> string tables \<Rightarrow> store \<Rightarrow> (error + string option) \<times> store" where
  "process_single_hostname_nxos hostname T out =
     (if mac_address T = [] then (Inr (Some (hostname @ ''.xlsx'')), out)
      else (case build_nxos hostname T of
              Inl e \<Rightarrow> (Inl e, out)
            | Inr result \<Rightarrow>
                if result = [] then (Inr None, out)
                else (Inr (Some (hostname @ ''.xlsx'')),
                      out(hostname @ ''.xlsx'' \<mapsto> Workbook result))))"

text \<open>
  \<^verbatim>\<open>process_single_hostname\<close> of \<^verbatim>\<open>logic_xe.py\<close>:
  \<^verbatim>\<open>if mac_address.empty: return None # Return None if no primary data exists\<close>
\<close>

definition process_single_hostname_xe ::
  "string \<Rightarrow> val tables \<Rightarrow> store \<Rightarrow> (error + string option) \<times> store" where
  "process_single_hostname_xe hostname T out =
     (if mac_address T = [] then (Inr None, out)
      else (let result = build_xe hostname T in
            if result = [] then (Inr None, out)
            else (Inr (Some (hostname @ ''.xlsx'')),
                  out(hostname @ ''.xlsx'' \<mapsto> Workbook result))))"

text \<open>
  The aggregation pass of \<^verbatim>\<open>execute_main\<close>, the same in both modules. What the code
  prints is kept as a list of diagnostics.
  \<^verbatim>\<open>for filename in results:\<close>
  \<^verbatim>\<open>    if filename:\<close>
  \<^verbatim>\<open>        try: ... df_single = pd.read_excel(filepath, sheet_name='Final Data'); all_device_data.append(df_single)\<close>
  \<^verbatim>\<open>        except Exception as e: print(f"Could not read {filename} for aggregation, error: {e}")\<close>
\<close>

datatype diag =
    Could_not_read string error
  | No_data_was_aggregated
  | Successfully_created string

definition collect ::
  "store \<Rightarrow> port_record list list \<times> diag list \<Rightarrow> string option
     \<Rightarrow> port_record list list \<times> diag list" where
  "collect out acc result =
     (case acc of (all_device_data, printed) \<Rightarrow>
        (case result of
           None \<Rightarrow> acc
         | Some filename \<Rightarrow>
             if filename = [] then acc
             else (case read_excel out filename of
                     Inr df_single \<Rightarrow> (all_device_data @ [df_single], printed)
                   | Inl e \<Rightarrow> (all_device_data, printed @ [Could_not_read filename e]))))"

definition aggregate :: "string option list \<Rightarrow> store \<Rightarrow> diag list \<times> store" where
  "aggregate results out =
     (case foldl (collect out) ([], []) results of (all_device_data, printed) \<Rightarrow>
        if all_device_data = [] then (printed @ [No_data_was_aggregated], out)
        else (let final_df = concat all_device_data;
                  final_df = ip_backfill final_df
              in (printed @ [Successfully_created ''Final_Report.xlsx''],
                  out(''Final_Report.xlsx'' \<mapsto> Workbook final_df))))"

text \<open>
  The dispatcher: \<^verbatim>\<open>pool.map\<close> returns the workers' values in task order and raises the
  first exception a worker raised. Each worker writes a file of its own, so running them
  one after the other leaves the same output folder.
\<close>

fun run_pool ::
  "('d \<Rightarrow> store \<Rightarrow> (error + string option) \<times> store) \<Rightarrow> 'd list \<Rightarrow> store
     \<Rightarrow> (error + string option) list \<times> store" where
  "run_pool worker [] out = ([], out)"
| "run_pool worker (task # tasks) out =
     (case worker task out of (r, out') \<Rightarrow>
        (case run_pool worker tasks out' of (rs, out'') \<Rightarrow> (r # rs, out'')))"

fun first_raise :: "(error + 'a) list \<Rightarrow> error + 'a list" where
  "first_raise [] = Inr []"
| "first_raise (Inl e # rs) = Inl e"
| "first_raise (Inr a # rs) = bind_e (first_raise rs) (\<lambda>as. Inr (a # as))"

definition execute_main ::
  "('d \<Rightarrow> store \<Rightarrow> (error + string option) \<times> store) \<Rightarrow> 'd list \<Rightarrow> store
     \<Rightarrow> (error + diag list) \<times> store" where
  "execute_main worker tasks out =
     (case run_pool worker tasks out of (rs, out') \<Rightarrow>
        (case first_raise rs of
           Inl e \<Rightarrow> (Inl e, out')
         | Inr results \<Rightarrow> (case aggregate results out' of (printed, out'') \<Rightarrow> (Inr printed, out''))))"

definition execute_main_nxos ::
  "(string \<times> string tables) list \<Rightarrow> store \<Rightarrow> (error + diag list) \<times> store" where
  "execute_main_nxos = execute_main (\<lambda>(hostname, T). process_single_hostname_nxos hostname T)"

definition execute_main_xe ::
  "(string \<times> val tables) list \<Rightarrow> store \<Rightarrow> (error + diag list) \<times> store" where
  "execute_main_xe = execute_main (\<lambda>(hostname, T). process_single_hostname_xe hostname T)"

section \<open>Segment Splitter\<close>

subsection \<open>The regular expressions\<close>

text \<open>
  The patterns of \<^verbatim>\<open>execute_split\<close> are written as functions that give, at a position
  of the text, the length of the match that starts there (\<open>0\<close>: no match; none of the
  patterns matches the empty string). \<open>bol\<close> tells whether the position is at the start
  of a line, where \<^verbatim>\<open>^\<close> matches under \<^verbatim>\<open>re.MULTILINE\<close>.

  \<open>re_delete\<close> is \<^verbatim>\<open>re.sub(pattern, "", text)\<close>: the text is scanned from the left, a
  match is dropped (the counter \<open>k\<close> counts the characters still to drop) and the scan
  goes on behind it.
\<close>

fun re_delete :: "(bool \<Rightarrow> string \<Rightarrow> nat) \<Rightarrow> nat \<Rightarrow> bool \<Rightarrow> string \<Rightarrow> string" where
  "re_delete m k bol [] = []"
| "re_delete m k bol (c # cs) =
     (if 0 < k then re_delete m (k - 1) (c = newline) cs
      else if 0 < m bol (c # cs) then re_delete m (m bol (c # cs) - 1) (c = newline) cs
      else c # re_delete m 0 (c = newline) cs)"

definition re_sub_empty :: "(bool \<Rightarrow> string \<Rightarrow> nat) \<Rightarrow> string \<Rightarrow> string" where
  "re_sub_empty m text = re_delete m 0 True text"

text \<open>
  \<open>re_split\<close> is \<^verbatim>\<open>re.split\<close> with a pattern that is one capturing group: the pieces
  between the matches alternate with the matches themselves, so the list has odd length.
\<close>

fun re_split_walk :: "(string \<Rightarrow> nat) \<Rightarrow> nat \<Rightarrow> string \<Rightarrow> string \<Rightarrow> string list" where
  "re_split_walk m k acc [] = [acc]"
| "re_split_walk m k acc (c # cs) =
     (if 0 < k then re_split_walk m (k - 1) acc cs
      else if 0 < m (c # cs)
           then acc # take (m (c # cs)) (c # cs) # re_split_walk m (m (c # cs) - 1) [] cs
      else re_split_walk m 0 (acc @ [c]) cs)"

definition re_split :: "(string \<Rightarrow> nat) \<Rightarrow> string \<Rightarrow> string list" where
  "re_split m text = re_split_walk m 0 [] text"

text \<open>The rest of the line at a position, without its line break.\<close>

definition line_rest :: "string \<Rightarrow> string" where
  "line_rest s = takeWhile (\<lambda>c. c \<noteq> newline) s"

text \<open>
  \<^verbatim>\<open>r"^show.*\n|^!$\n|terminal no length"\<close> (NX-OS, on the whole capture).
\<close>

definition boilerplate_nxos :: "bool \<Rightarrow> string \<Rightarrow> nat" where
  "boilerplate_nxos bol s =
     (if bol \<and> prefix ''show'' s \<and> newline \<in> set s then Suc (length (line_rest s))
      else if bol \<and> prefix [CHR ''!'', newline] s then 2
      else if prefix ''terminal no length'' s then 18
      else 0)"

text \<open>
  \<^verbatim>\<open>r"^!$\n|^terminal no length\n|^Stop recording.*\n?"\<close> (IOS-XE, on each segment).
\<close>

definition boilerplate_xe :: "bool \<Rightarrow> string \<Rightarrow> nat" where
  "boilerplate_xe bol s =
     (if bol \<and> prefix [CHR ''!'', newline] s then 2
      else if bol \<and> prefix (''terminal no length'' @ [newline]) s then 19
      else if bol \<and> prefix ''Stop recording'' s
           then (if newline \<in> set s then Suc (length (line_rest s)) else length (line_rest s))
      else 0)"

text \<open>
  The device name is pasted into the pattern \<^verbatim>\<open>rf"({name_file}# show .+?\n)"\<close> as it is.
  Uploaded file names pass \<^verbatim>\<open>secure_filename\<close>, which leaves ASCII letters, digits,
  \<^verbatim>\<open>_\<close>, \<^verbatim>\<open>-\<close> and \<^verbatim>\<open>.\<close>; of these only the dot is special in a pattern, where it stands for
  any character but a line break.
\<close>

fun match_name :: "string \<Rightarrow> string \<Rightarrow> bool" where
  "match_name [] s = True"
| "match_name (p # ps) [] = False"
| "match_name (p # ps) (c # cs) =
     ((p = c \<or> (p = CHR ''.'' \<and> c \<noteq> newline)) \<and> match_name ps cs)"

text \<open>
  The header pattern: the name, the literal \<open>lit\<close> (\<^verbatim>\<open>"# show "\<close> for NX-OS, \<^verbatim>\<open>"#show "\<close> for
  IOS-XE), at least one character of the line, and the line break.
\<close>

definition header_match :: "string \<Rightarrow> string \<Rightarrow> string \<Rightarrow> nat" where
  "header_match name_file lit s =
     (if match_name name_file s \<and> prefix lit (drop (length name_file) s)
      then (let t = drop (length name_file + length lit) s in
            if t \<noteq> [] \<and> line_rest t \<noteq> [] \<and> newline \<in> set t
            then length name_file + length lit + Suc (length (line_rest t))
            else 0)
      else 0)"

subsection \<open>Files\<close>

text \<open>
  The input folder is the list of its regular files, name and text, in the order of
  \<^verbatim>\<open>os.listdir\<close>. The output directory maps a device name and a file name to the text
  of \<^verbatim>\<open>output_dir/device/file\<close>. The code creates \<^verbatim>\<open>output_dir/device\<close> and nothing
  below it, so opening a file whose name has a \<^verbatim>\<open>/\<close> raises \<^verbatim>\<open>FileNotFoundError\<close>; other
  failures of the file system are not modelled.
\<close>

type_synonym split_dir = "string \<times> string \<rightharpoonup> string"

definition write_file :: "string \<Rightarrow> string \<Rightarrow> string \<Rightarrow> split_dir \<Rightarrow> error + split_dir" where
  "write_file device filename content fs =
     (if CHR ''/'' \<in> set filename then Inl FileNotFoundError
      else Inr (fs((device, filename) \<mapsto> content)))"

text \<open>
  \<^verbatim>\<open>os.path.splitext(f)[0]\<close> on a name without directory part: the name up to its last
  dot, unless only dots precede that dot.
\<close>

definition splitext_root :: "string \<Rightarrow> string" where
  "splitext_root p =
     (let dotIndex = length p - Suc (length (takeWhile (\<lambda>c. c \<noteq> CHR ''.'') (rev p))) in
      if CHR ''.'' \<in> set p \<and> filter (\<lambda>c. c \<noteq> CHR ''.'') (take dotIndex p) \<noteq> []
      then take dotIndex p else p)"

text \<open>
  A loop whose body may raise after it has changed the state: the state reached is kept.
\<close>

fun for_each ::
  "('b \<Rightarrow> 's \<Rightarrow> error option \<times> 's) \<Rightarrow> 'b list \<Rightarrow> 's \<Rightarrow> error option \<times> 's" where
  "for_each body [] s = (None, s)"
| "for_each body (x # xs) s =
     (case body x s of
        (Some e, s') \<Rightarrow> (Some e, s')
      | (None, s') \<Rightarrow> for_each body xs s')"

definition nth_e :: "'a list \<Rightarrow> nat \<Rightarrow> error + 'a" where
  "nth_e xs i = (if i < length xs then Inr (xs ! i) else Inl IndexError)"

definition index_last :: "'a list \<Rightarrow> error + 'a" where
  "index_last xs = (if xs = [] then Inl IndexError else Inr (last xs))"

text \<open>\<^verbatim>\<open>range(1, n, 2)\<close>.\<close>

definition range_odd :: "nat \<Rightarrow> nat list" where
  "range_odd n = map (\<lambda>j. 2 * j + 1) [0..<n div 2]"

definition spaces_to_underscores :: "string \<Rightarrow> string" where
  "spaces_to_underscores s = map (\<lambda>c. if c = CHR '' '' then CHR ''_'' else c) s"

subsection \<open>NX-OS (\<^verbatim>\<open>logic.py\<close>, and the same text in \<^verbatim>\<open>logic-single.py\<close>)\<close>

definition required_commands :: "string list" where
  "required_commands =
     [''show interface description'', ''show interface status'', ''show interface trunk'',
      ''show port-channel summary'', ''show ip arp'', ''show mac address-table'',
      ''show inventory'', ''show cdp neighbors'', ''show lldp neighbors'']"

text \<open>
  \<^verbatim>\<open>for command in required_commands: if command not in data: missing_commands.append(f"'{command}'")\<close>
\<close>

definition apostrophe :: char where
  "apostrophe = CHR 0x27"

definition missing_commands :: "string \<Rightarrow> string list" where
  "missing_commands data =
     map (\<lambda>command. [apostrophe] @ command @ [apostrophe])
       (filter (\<lambda>command. \<not> py_in command data) required_commands)"

text \<open>
  \<^verbatim>\<open>f"File '{name_file}.txt' is missing command(s): {', '.join(missing_commands)}."\<close>
\<close>

definition error_message :: "string \<Rightarrow> string list \<Rightarrow> string" where
  "error_message name_file missing =
     ''File '' @ [apostrophe] @ name_file @ ''.txt'' @ [apostrophe]
       @ '' is missing command(s): '' @ py_join '', '' missing @ ''.''"

text \<open>
  One turn of \<^verbatim>\<open>for i in range(1, len(blocks), 2)\<close>:
  \<^verbatim>\<open>header = blocks[i].strip()\<close>
  \<^verbatim>\<open>command = header.split("#show ")[-1].replace(" ", "_")\<close>
  \<^verbatim>\<open>content = header + "\n" + blocks[i+1]\<close>
  \<^verbatim>\<open>command = command.replace(f"{name_file}#_", "")\<close>
  and the file \<^verbatim>\<open>f"{command}.txt"\<close> is written.
\<close>

definition segment_nxos ::
  "string \<Rightarrow> string list \<Rightarrow> nat \<Rightarrow> split_dir \<Rightarrow> error option \<times> split_dir" where
  "segment_nxos name_file blocks i fs =
     (case bind_e (nth_e blocks i) (\<lambda>block.
           bind_e (index_last (py_split ''#show '' (py_strip block))) (\<lambda>tail.
           bind_e (nth_e blocks (i + 1)) (\<lambda>body.
             let header = py_strip block;
                 command = spaces_to_underscores tail;
                 content = header @ [newline] @ body;
                 command = py_replace (name_file @ ''#_'') [] command
             in write_file name_file (command @ ''.txt'') content fs)))
      of Inl e \<Rightarrow> (Some e, fs) | Inr fs' \<Rightarrow> (None, fs'))"

text \<open>
  One turn of \<^verbatim>\<open>for name_file in filenames\<close>. A name without a file
  \<^verbatim>\<open>{name_file}.txt\<close> is passed over (\<^verbatim>\<open>except FileNotFoundError: continue\<close>); a capture
  with a missing command adds its message and is passed over
  (\<^verbatim>\<open>error_messages.append(error_message); continue\<close>); any other capture is split.
\<close>

definition split_file_nxos ::
  "(string \<times> string) list \<Rightarrow> string \<Rightarrow> string list \<times> split_dir
     \<Rightarrow> error option \<times> string list \<times> split_dir" where
  "split_file_nxos folder name_file state =
     (case state of (error_messages, fs) \<Rightarrow>
        (case map_of folder (name_file @ ''.txt'') of
           None \<Rightarrow> (None, state)
         | Some data \<Rightarrow>
             if missing_commands data \<noteq> []
             then (None, error_messages @ [error_message name_file (missing_commands data)], fs)
             else (let data = re_sub_empty boilerplate_nxos data;
                       blocks = re_split (header_match name_file ''# show '') data
                   in case for_each (segment_nxos name_file blocks)
                             (range_odd (length blocks)) fs
                      of (raised, fs') \<Rightarrow> (raised, error_messages, fs'))))"

text \<open>
  \<^verbatim>\<open>execute_split(input_folder, output_dir)\<close>: \<open>listing\<close> is \<open>None\<close> when
  \<^verbatim>\<open>input_folder\<close> is not a directory. The result is the returned list of messages, or
  the exception that left the function, and the output directory.
\<close>

definition execute_split_nxos ::
  "string \<Rightarrow> (string \<times> string) list option \<Rightarrow> split_dir
     \<Rightarrow> (error + string list) \<times> split_dir" where
  "execute_split_nxos input_folder listing fs =
     (case listing of
        None \<Rightarrow> (Inr [''Input directory not found: '' @ input_folder], fs)
      | Some folder \<Rightarrow>
          (let filenames = map (\<lambda>f. splitext_root (fst f)) folder in
           case for_each (split_file_nxos folder) filenames ([], fs) of
             (Some e, error_messages, fs') \<Rightarrow> (Inl e, fs')
           | (None, error_messages, fs') \<Rightarrow> (Inr error_messages, fs')))"

subsection \<open>IOS-XE (\<^verbatim>\<open>logic_xe.py\<close>)\<close>

text \<open>The alias table that brings the IOS-XE command names to the NX-OS ones.\<close>

definition alias_xe :: "string \<Rightarrow> string" where
  "alias_xe command =
     (if command = ''etherchannel_summary'' then ''port-channel_summary''
      else if command = ''interfaces_description'' then ''interface_description''
      else if command = ''interfaces_status'' then ''interface_status''
      else if command = ''interfaces_trunk'' then ''interface_trunk''
      else command)"

text \<open>
  \<^verbatim>\<open>content = blocks[i+1]\<close>, cleaned by the second pattern, is written to
  \<^verbatim>\<open>f"show_{command}.txt"\<close>.
\<close>

definition segment_xe ::
  "string \<Rightarrow> string list \<Rightarrow> nat \<Rightarrow> split_dir \<Rightarrow> error option \<times> split_dir" where
  "segment_xe name_file blocks i fs =
     (case bind_e (nth_e blocks i) (\<lambda>block.
           bind_e (index_last (py_split ''#show '' (py_strip block))) (\<lambda>tail.
           bind_e (nth_e blocks (i + 1)) (\<lambda>body.
             let command = alias_xe (spaces_to_underscores tail);
                 content = re_sub_empty boilerplate_xe body;
                 command = py_replace (name_file @ ''#_'') [] command
             in write_file name_file (''show_'' @ command @ ''.txt'') content fs)))
      of Inl e \<Rightarrow> (Some e, fs) | Inr fs' \<Rightarrow> (None, fs'))"

definition split_file_xe ::
  "(string \<times> string) list \<Rightarrow> string \<Rightarrow> string list \<times> split_dir
     \<Rightarrow> error option \<times> string list \<times> split_dir" where
  "split_file_xe folder name_file state =
     (case state of (error_messages, fs) \<Rightarrow>
        (case map_of folder (name_file @ ''.txt'') of
           None \<Rightarrow> (None, state)
         | Some data \<Rightarrow>
             (let blocks = re_split (header_match name_file ''#show '') data
              in case for_each (segment_xe name_file blocks)
                        (range_odd (length blocks)) fs
                 of (raised, fs') \<Rightarrow> (raised, error_messages, fs'))))"

definition execute_split_xe ::
  "string \<Rightarrow> (string \<times> string) list option \<Rightarrow> split_dir
     \<Rightarrow> (error + string list) \<times> split_dir" where
  "execute_split_xe input_folder listing fs =
     (case listing of
        None \<Rightarrow> (Inr [''Input directory not found: '' @ input_folder], fs)
      | Some folder \<Rightarrow>
          (let filenames = map (\<lambda>f. splitext_root (fst f)) folder in
           case for_each (split_file_xe folder) filenames ([], fs) of
             (Some e, error_messages, fs') \<Rightarrow> (Inl e, fs')
           | (None, error_messages, fs') \<Rightarrow> (Inr error_messages, fs')))"

section \<open>Sample inputs\<close>

text \<open>Sample rows for the closed instances below: only host, MAC and IP vary.\<close>

definition sample_row :: "string \<Rightarrow> string \<Rightarrow> string option \<Rightarrow> port_record" where
  "sample_row h m ip =
     \<lparr>Hostname = h, Serial_Number = None, Port = ''Eth1/1'', Member_PO = '''',
      Tipe_Kabel = ''???'', SFP = None, IP_Address = ip, Mac_Address = m,
      VLAN = ''10'', Allowed_VLAN = '''', Trunk_Access = '''', Description = None,
      CDP_Neighbor_Hostname = None, CDP_Neighbor_Platform = None,
      CDP_Neighbor_Port = None, LLDP_Neighbor_Hostname = None,
      LLDP_Neighbor_Port = None\<rparr>"

section \<open>Properties of the backfill\<close>

lemma foldl_upd_map_of:
  "foldl (\<lambda>d kv. d(fst kv \<mapsto> snd kv)) m kvs = m ++ map_of (rev kvs)"
proof (induction kvs arbitrary: m)
  case Nil
  show ?case by simp
next
  case (Cons kv kvs)
  have "foldl (\<lambda>d kv. d(fst kv \<mapsto> snd kv)) m (kv # kvs) =
        (m(fst kv \<mapsto> snd kv)) ++ map_of (rev kvs)"
    unfolding foldl_Cons by (rule Cons.IH)
  also have "\<dots> = m ++ ([fst kv \<mapsto> snd kv] ++ map_of (rev kvs))"
    by (rule ext) (simp add: map_add_def split: option.splits)
  also have "[fst kv \<mapsto> snd kv] ++ map_of (rev kvs) = map_of (rev (kv # kvs))"
    by (cases kv) simp
  finally show ?case .
qed

lemma to_dict_map_of: "to_dict kvs = map_of (rev kvs)"
  by (simp add: to_dict_def foldl_upd_map_of)

lemma set_index_dropna:
  "set_index (dropna df) =
     map (\<lambda>r. (Mac_Address r, the (IP_Address r))) (filter (\<lambda>r. IP_Address r \<noteq> None) df)"
  by (induction df) (auto simp: set_index_def dropna_def)

lemma map_of_rev_keyed:
  "map_of (rev (map (\<lambda>r. (k r, v r)) rs)) x =
     (if filter (\<lambda>r. k r = x) rs = [] then None
      else Some (v (last (filter (\<lambda>r. k r = x) rs))))"
  by (induction rs rule: rev_induct) simp_all

lemma mac_to_ip_last:
  "mac_to_ip df m =
     (if filter (\<lambda>r. Mac_Address r = m \<and> IP_Address r \<noteq> None) df = [] then None
      else IP_Address (last (filter (\<lambda>r. Mac_Address r = m \<and> IP_Address r \<noteq> None) df)))"
proof -
  let ?P = "\<lambda>r. IP_Address r \<noteq> None"
  let ?Q = "\<lambda>r. Mac_Address r = m \<and> IP_Address r \<noteq> None"
  have f: "filter (\<lambda>r. Mac_Address r = m) (filter ?P df) = filter ?Q df"
    by (simp add: conj_commute)
  have "mac_to_ip df m =
      (if filter ?Q df = [] then None else Some (the (IP_Address (last (filter ?Q df)))))"
    unfolding mac_to_ip_def to_dict_map_of set_index_dropna
    by (simp only: map_of_rev_keyed f)
  moreover have "IP_Address (last (filter ?Q df)) \<noteq> None" if "filter ?Q df \<noteq> []"
  proof -
    have "last (filter ?Q df) \<in> set (filter ?Q df)" using that by (rule last_in_set)
    then show ?thesis by simp
  qed
  ultimately show ?thesis by auto
qed

lemma last_filter_index:
  "i < length xs \<Longrightarrow> P (xs ! i) \<Longrightarrow>
     \<exists>k. i \<le> k \<and> k < length xs \<and> P (xs ! k) \<and> last (filter P xs) = xs ! k"
proof (induction xs rule: rev_induct)
  case Nil
  then show ?case by simp
next
  case (snoc y ys)
  show ?case
  proof (cases "P y")
    case True
    have "i \<le> length ys" using snoc.prems(1) by simp
    with True show ?thesis by (intro exI [of _ "length ys"]) simp
  next
    case False
    with snoc.prems have i: "i < length ys"
      by (cases "i = length ys") auto
    with snoc.prems have "P (ys ! i)" by (simp add: nth_append)
    from snoc.IH [OF i this] obtain k where
      k: "i \<le> k" "k < length ys" "P (ys ! k)" "last (filter P ys) = ys ! k" by blast
    with False show ?thesis by (intro exI [of _ k]) (simp add: nth_append)
  qed
qed

lemma ip_backfill_nth:
  "i < length df \<Longrightarrow>
     IP_Address (ip_backfill df ! i) =
       (case IP_Address (df ! i) of Some ip \<Rightarrow> Some ip
        | None \<Rightarrow> mac_to_ip df (Mac_Address (df ! i)))"
  by (simp add: ip_backfill_def fillna_def split: option.splits)

text \<open>
  C1, amended. The MAC-to-IP mapping of the backfill is built from the rows whose IP address
  is present only, and on a duplicate MAC address the last writer wins: the mapping holds
  the IP address of the last row, in table order, that has this MAC address and an IP
  address. Every row whose IP address is missing is then given the mapping's value at its
  MAC address (it stays missing when the mapping has none), and no other row changes.
\<close>

theorem ip_backfill_last_writer_wins:
  "mac_to_ip df m =
     (if \<exists>r \<in> set df. Mac_Address r = m \<and> IP_Address r \<noteq> None
      then IP_Address (last (filter (\<lambda>r. Mac_Address r = m \<and> IP_Address r \<noteq> None) df))
      else None)
   \<and> ip_backfill df =
       map (\<lambda>r. if IP_Address r = None
                then r\<lparr>IP_Address := mac_to_ip df (Mac_Address r)\<rparr> else r) df"
proof
  show "mac_to_ip df m =
     (if \<exists>r \<in> set df. Mac_Address r = m \<and> IP_Address r \<noteq> None
      then IP_Address (last (filter (\<lambda>r. Mac_Address r = m \<and> IP_Address r \<noteq> None) df))
      else None)"
    by (auto simp: mac_to_ip_last filter_empty_conv)
  show "ip_backfill df =
       map (\<lambda>r. if IP_Address r = None
                then r\<lparr>IP_Address := mac_to_ip df (Mac_Address r)\<rparr> else r) df"
    by (auto simp: ip_backfill_def fillna_def split: option.splits)
qed

text \<open>
  Three devices report the same MAC address, the first two with different IP addresses:
  the mapping holds the second one, and the third row is filled with it.
\<close>

theorem ip_backfill_last_writer_wins_witness:
  "mac_to_ip [sample_row ''sw1'' ''0011.2233.4455'' (Some ''10.0.0.1''),
              sample_row ''sw2'' ''0011.2233.4455'' (Some ''10.0.0.2''),
              sample_row ''sw3'' ''0011.2233.4455'' None] ''0011.2233.4455'' = Some ''10.0.0.2''
   \<and> map IP_Address (ip_backfill
             [sample_row ''sw1'' ''0011.2233.4455'' (Some ''10.0.0.1''),
              sample_row ''sw2'' ''0011.2233.4455'' (Some ''10.0.0.2''),
              sample_row ''sw3'' ''0011.2233.4455'' None])
       = [Some ''10.0.0.1'', Some ''10.0.0.2'', Some ''10.0.0.2'']"
  using ip_backfill_last_writer_wins
    [of "[sample_row ''sw1'' ''0011.2233.4455'' (Some ''10.0.0.1''),
          sample_row ''sw2'' ''0011.2233.4455'' (Some ''10.0.0.2''),
          sample_row ''sw3'' ''0011.2233.4455'' None]" "''0011.2233.4455''"]
  by (simp add: sample_row_def)

text \<open>
  C1 as stated fails: with two rows that share a MAC address and both have an IP address,
  the mapping does not keep the earlier row's address.
\<close>

theorem first_writer_wins_counterexample:
  "mac_to_ip [sample_row ''sw1'' ''0011.2233.4455'' (Some ''10.0.0.1''),
              sample_row ''sw2'' ''0011.2233.4455'' (Some ''10.0.0.2'')] ''0011.2233.4455''
     = Some ''10.0.0.2''
   \<and> mac_to_ip [sample_row ''sw1'' ''0011.2233.4455'' (Some ''10.0.0.1''),
                sample_row ''sw2'' ''0011.2233.4455'' (Some ''10.0.0.2'')] ''0011.2233.4455''
     \<noteq> IP_Address (sample_row ''sw1'' ''0011.2233.4455'' (Some ''10.0.0.1''))"
  by (simp add: mac_to_ip_def to_dict_def set_index_def dropna_def sample_row_def)

text \<open>
  C8, amended. If two rows of the aggregation input share a MAC address, one of them has
  the IP address \<open>ip\<close> and the other has none, and no row after the one with the address
  has the same MAC address and a different IP address, then after the backfill both rows
  carry \<open>ip\<close>.
\<close>

theorem ip_backfill_shared_mac:
  assumes "i < length df" and "j < length df"
    and "Mac_Address (df ! j) = Mac_Address (df ! i)"
    and "IP_Address (df ! i) = Some ip" and "IP_Address (df ! j) = None"
    and "\<forall>k. i < k \<and> k < length df \<and> Mac_Address (df ! k) = Mac_Address (df ! i)
           \<longrightarrow> IP_Address (df ! k) = None \<or> IP_Address (df ! k) = Some ip"
  shows "IP_Address (ip_backfill df ! i) = Some ip \<and> IP_Address (ip_backfill df ! j) = Some ip"
proof -
  define m where "m = Mac_Address (df ! i)"
  define Q where "Q = (\<lambda>r::port_record. Mac_Address r = m \<and> IP_Address r \<noteq> None)"
  have qi: "Q (df ! i)" using assms(4) by (simp add: Q_def m_def)
  have "\<exists>k. i \<le> k \<and> k < length df \<and> Q (df ! k) \<and> last (filter Q df) = df ! k"
    using assms(1) qi by (rule last_filter_index)
  then obtain k where
    k: "i \<le> k" "k < length df" "Q (df ! k)" "last (filter Q df) = df ! k" by blast
  have km: "Mac_Address (df ! k) = Mac_Address (df ! i)" and kn: "IP_Address (df ! k) \<noteq> None"
    using k(3) by (simp_all add: Q_def m_def)
  have kip: "IP_Address (df ! k) = Some ip"
  proof (cases "k = i")
    case True
    with assms(4) show ?thesis by simp
  next
    case False
    with k(1) have "i < k" by simp
    with k(2) km have "i < k \<and> k < length df \<and> Mac_Address (df ! k) = Mac_Address (df ! i)"
      by simp
    with assms(6) have "IP_Address (df ! k) = None \<or> IP_Address (df ! k) = Some ip"
      by (rule_tac mp [OF spec [of _ k]])
    with kn show ?thesis by auto
  qed
  have "df ! k \<in> set df" using k(2) by simp
  with k(3) have ne: "filter Q df \<noteq> []"
    by (auto simp: filter_empty_conv)
  have "mac_to_ip df m = IP_Address (last (filter Q df))"
    unfolding Q_def using ne [unfolded Q_def] by (simp only: mac_to_ip_last if_False)
  then have mm: "mac_to_ip df m = Some ip"
    by (simp only: k(4) kip)
  have "IP_Address (ip_backfill df ! i) = Some ip"
    using assms(1) by (simp add: ip_backfill_nth assms(4))
  moreover have "IP_Address (ip_backfill df ! j) = Some ip"
    using assms(2) by (simp add: ip_backfill_nth assms(5) assms(3) mm [unfolded m_def])
  ultimately show ?thesis by simp
qed

text \<open>The scenario of the specification: two rows, the second without an IP address.\<close>

theorem ip_backfill_shared_mac_witness:
  "IP_Address (ip_backfill [sample_row ''sw1'' ''0011.2233.4455'' (Some ''10.0.0.1''),
                            sample_row ''sw2'' ''0011.2233.4455'' None] ! 0) = Some ''10.0.0.1''
   \<and> IP_Address (ip_backfill [sample_row ''sw1'' ''0011.2233.4455'' (Some ''10.0.0.1''),
                            sample_row ''sw2'' ''0011.2233.4455'' None] ! 1) = Some ''10.0.0.1''"
  using ip_backfill_shared_mac
    [of 0 "[sample_row ''sw1'' ''0011.2233.4455'' (Some ''10.0.0.1''),
            sample_row ''sw2'' ''0011.2233.4455'' None]" 1 "''10.0.0.1''"]
  by (simp add: sample_row_def)

text \<open>
  C8 as stated fails: rows 0 and 1 share a MAC address and only row 0 has an IP address,
  but a third row with the same MAC address and another IP address follows, and row 1 is
  filled with that one.
\<close>

theorem ip_backfill_shared_mac_counterexample:
  "IP_Address (ip_backfill [sample_row ''sw1'' ''0011.2233.4455'' (Some ''10.0.0.1''),
                            sample_row ''sw2'' ''0011.2233.4455'' None,
                            sample_row ''sw3'' ''0011.2233.4455'' (Some ''10.0.0.2'')] ! 1)
     = Some ''10.0.0.2''
   \<and> IP_Address (ip_backfill [sample_row ''sw1'' ''0011.2233.4455'' (Some ''10.0.0.1''),
                            sample_row ''sw2'' ''0011.2233.4455'' None,
                            sample_row ''sw3'' ''0011.2233.4455'' (Some ''10.0.0.2'')] ! 1)
     \<noteq> IP_Address (sample_row ''sw1'' ''0011.2233.4455'' (Some ''10.0.0.1''))"
  by (simp add: ip_backfill_def fillna_def mac_to_ip_def to_dict_def set_index_def dropna_def
      sample_row_def)

end
